theory Spec2Isabelle
  imports Complex_Main
begin

section \<open>Matrices\<close>

text \<open>
  A matrix of the program is a \<^verbatim>\<open>float*\<close>: the address of a block of cells that carries
  no length. It is modelled as a store from cell index to value; the dimensions travel
  beside it, as they do in the source. Cell values are taken in exact arithmetic, so the
  rounding of single-precision addition is outside this development.
\<close>

type_synonym cell = real

type_synonym buffer = "nat \<Rightarrow> cell"

section \<open>The routines declared in pch.h\<close>

text \<open>
  Modelled from the spec: the constants \<^verbatim>\<open>DEFAULT_DIM\<close>, \<^verbatim>\<open>MAT_A_VAL\<close>, \<^verbatim>\<open>MAT_B_VAL\<close> and
  \<^verbatim>\<open>VERIF_TOL\<close> of the header pch.h, which is not among the sources. The comments of
  main.cpp give 1024 for the default dimension and 3.0 and 2.0 for the fill values; the
  spec gives 1e-5 for the tolerance.
\<close>

definition DEFAULT_DIM :: int where
  "DEFAULT_DIM = 1024"

definition MAT_A_VAL :: cell where
  "MAT_A_VAL = 3"

definition MAT_B_VAL :: cell where
  "MAT_B_VAL = 2"

definition VERIF_TOL :: cell where
  "VERIF_TOL = 1 / 100000"

text \<open>
  Modelled from the spec: \<^verbatim>\<open>InitializeMatrixSame\<close> (MatrixInit), whose body is not among the
  sources. Given a target matrix, the dimensions and a constant, it fills every cell with
  that value; the last argument is the name main passes along.
\<close>

definition InitializeMatrixSame :: "buffer \<Rightarrow> nat \<Rightarrow> nat \<Rightarrow> cell \<Rightarrow> string \<Rightarrow> buffer" where
  "InitializeMatrixSame m dx dy v name = fold (\<lambda>i buf. buf(i := v)) [0..<dx * dy] m"

text \<open>
  Modelled from the spec: \<^verbatim>\<open>cpu_matrix_add\<close> (HostAdd), whose body is not among the sources.
  Given inputs \<open>A\<close>, \<open>B\<close> and an output matrix it writes \<open>output[i] = A[i] + B[i]\<close> for
  every cell, by sequential iteration.
\<close>

definition cpu_matrix_add :: "buffer \<Rightarrow> buffer \<Rightarrow> buffer \<Rightarrow> nat \<Rightarrow> nat \<Rightarrow> buffer" where
  "cpu_matrix_add A B out dx dy = fold (\<lambda>i buf. buf(i := A i + B i)) [0..<dx * dy] out"

text \<open>
  Modelled from the spec: \<^verbatim>\<open>gpu_matrix_add\<close> (DeviceAdd), whose body is not among the
  sources. The accelerator is described by its launch configuration (the block
  dimensions), by whether its allocations, copies and launch succeed, and by the
  indeterminate contents of the three blocks it hands out. The routine copies \<open>A\<close> and
  \<open>B\<close> to the device, runs one execution unit per position of a two-dimensional grid
  that may over-provision, each unit guarded by the boundary check against \<open>dx\<close> and
  \<open>dy\<close> and writing the one cell \<open>row * dx + col\<close>, and copies the result back. A
  failure on the accelerator path is fatal for the run: the routine does not return
  (\<open>None\<close>). The units write disjoint cells, so they are run here one after the other.
\<close>

record device =
  block_x :: nat
  block_y :: nat
  device_ok :: bool
  device_mem :: "nat \<Rightarrow> buffer"

definition cudaMemcpy :: "buffer \<Rightarrow> buffer \<Rightarrow> nat \<Rightarrow> buffer" where
  "cudaMemcpy dst src n = fold (\<lambda>i buf. buf(i := src i)) [0..<n] dst"

definition matrix_add_kernel ::
    "buffer \<Rightarrow> buffer \<Rightarrow> nat \<Rightarrow> nat \<Rightarrow> nat \<times> nat \<Rightarrow> buffer \<Rightarrow> buffer" where
  "matrix_add_kernel d_A d_B dx dy t d_C =
     (case t of (col, row) \<Rightarrow>
        if col < dx \<and> row < dy
        then d_C(row * dx + col := d_A (row * dx + col) + d_B (row * dx + col))
        else d_C)"

definition grid_dim :: "nat \<Rightarrow> nat \<Rightarrow> nat" where
  "grid_dim n b = (n + b - 1) div b"

definition launch_threads :: "nat \<Rightarrow> nat \<Rightarrow> nat \<Rightarrow> nat \<Rightarrow> (nat \<times> nat) list" where
  "launch_threads bx by gx gy =
     [(bi * bx + ti, bj * by + tj).
        bj \<leftarrow> [0..<gy], bi \<leftarrow> [0..<gx], tj \<leftarrow> [0..<by], ti \<leftarrow> [0..<bx]]"

definition gpu_matrix_add ::
    "device \<Rightarrow> buffer \<Rightarrow> buffer \<Rightarrow> buffer \<Rightarrow> nat \<Rightarrow> nat \<Rightarrow> buffer option" where
  "gpu_matrix_add dev A B C dx dy =
     (if \<not> device_ok dev \<or> block_x dev = 0 \<or> block_y dev = 0 then None
      else
        let n = dx * dy;
            d_A = cudaMemcpy (device_mem dev 0) A n;
            d_B = cudaMemcpy (device_mem dev 1) B n;
            d_C = fold (matrix_add_kernel d_A d_B dx dy)
                    (launch_threads (block_x dev) (block_y dev)
                       (grid_dim dx (block_x dev)) (grid_dim dy (block_y dev)))
                    (device_mem dev 2)
        in Some (cudaMemcpy C d_C n))"

text \<open>
  Modelled from the spec: \<^verbatim>\<open>MatrixVerification\<close> (Verify), whose body is not among the
  sources. Two cells match when their absolute difference is at most the tolerance; the
  routine reports the number of cells that do not match.
\<close>

definition MatrixVerification :: "buffer \<Rightarrow> buffer \<Rightarrow> nat \<Rightarrow> nat \<Rightarrow> cell \<Rightarrow> nat" where
  "MatrixVerification X Y dx dy tol =
     length (filter (\<lambda>i. \<not> \<bar>X i - Y i\<bar> \<le> tol) [0..<dx * dy])"

text \<open>
  Modelled from the spec: \<^verbatim>\<open>PrintMatrix\<close>, whose body is not among the sources. What it
  prints is the cells of the \<open>dx\<close> by \<open>dy\<close> matrix in storage order.
\<close>

definition PrintMatrix :: "buffer \<Rightarrow> nat \<Rightarrow> nat \<Rightarrow> cell list" where
  "PrintMatrix m dx dy = map m [0..<dx * dy]"

section \<open>The harness\<close>

text \<open>
  What a run of \<^verbatim>\<open>main\<close> can be observed to do is a list of events, in program order,
  and the way it ends. The four host matrices are named after the pointers of the source.
  An \<open>Input\<close> event is not output: it records the cells a matrix holds at the moment
  \<^verbatim>\<open>main\<close> passes it to a routine that reads it, so that what a routine is given to read
  is part of the run.
\<close>

datatype matrix_name = H_A | H_B | H_C | H_check

datatype phase = Init_phase | Cpu_phase | Gpu_phase

datatype device_output = Diagnostic

datatype event =
    Usage_message
  | Malloc matrix_name nat bool
  | Init_call matrix_name
  | Timing_line phase
  | Input matrix_name "cell list"
  | Cpu_add_call
  | Gpu_add_call
  | Device_output device_output
  | Dump_heading phase
  | Matrix_dump matrix_name "cell list"
  | Verification_report nat
  | Free matrix_name

text \<open>
  A run ends by returning from \<^verbatim>\<open>main\<close>, by a fatal abort inside the accelerator routine,
  or in behaviour that C leaves undefined: \<^verbatim>\<open>atoi\<close> of a null pointer or of a number that
  does not fit an \<^verbatim>\<open>int\<close>, and the use of a null matrix by a routine that has cells to
  touch.
\<close>

datatype fault = Null_argument | Atoi_out_of_range | Null_buffer matrix_name

datatype outcome = Returned int | Undefined fault | Aborted

definition INT_MAX :: int where
  "INT_MAX = 2147483647"

definition INT_MIN :: int where
  "INT_MIN = - 2147483648"

text \<open>
  The C library's \<^verbatim>\<open>atoi\<close>: leading white space, an optional sign, then decimal digits up
  to the first character that is not one; no digits give 0.
\<close>

definition isspace :: "char \<Rightarrow> bool" where
  "isspace c = (c \<in> set [CHR '' '', CHR 0x09, CHR 0x0A, CHR 0x0B, CHR 0x0C, CHR 0x0D])"

definition isdigit :: "char \<Rightarrow> bool" where
  "isdigit c = (48 \<le> (of_char c :: nat) \<and> (of_char c :: nat) \<le> 57)"

fun digits_value :: "int \<Rightarrow> string \<Rightarrow> int" where
  "digits_value acc [] = acc"
| "digits_value acc (c # cs) =
     (if isdigit c then digits_value (10 * acc + (of_char c - 48)) cs else acc)"

definition atoi :: "string option \<Rightarrow> fault + int" where
  "atoi p =
     (case p of
        None \<Rightarrow> Inl Null_argument
      | Some s \<Rightarrow>
          (let v = (case dropWhile isspace s of
                      [] \<Rightarrow> 0
                    | c # cs \<Rightarrow>
                        if c = CHR ''-'' then - digits_value 0 cs
                        else if c = CHR ''+'' then digits_value 0 cs
                        else digits_value 0 (c # cs))
           in if INT_MIN \<le> v \<and> v \<le> INT_MAX then Inr v else Inl Atoi_out_of_range))"

text \<open>
  \<^verbatim>\<open>argv[i]\<close> for \<open>i \<le> argc\<close>: the argument list holds \<open>argc\<close> strings and is closed by
  a null pointer at index \<open>argc\<close>.
\<close>

definition argv_at :: "string list \<Rightarrow> nat \<Rightarrow> string option" where
  "argv_at argv i = (if i < length argv then Some (argv ! i) else None)"

text \<open>Lines 17 to 27 of main.cpp: the dimensions, the usage error, or the defaults.\<close>

datatype resolved = Dims int int | Usage_error | Parse_fault fault

definition resolve_dims :: "string list \<Rightarrow> resolved" where
  "resolve_dims argv =
     (let argc = int (length argv) in
      if 1 < argc \<and> argc < 4 then
        (case atoi (argv_at argv 1) of
           Inl f \<Rightarrow> Parse_fault f
         | Inr dx \<Rightarrow>
             (case atoi (argv_at argv 2) of
                Inl f \<Rightarrow> Parse_fault f
              | Inr dy \<Rightarrow> Dims dx dy))
      else if 4 \<le> argc then Usage_error
      else Dims DEFAULT_DIM DEFAULT_DIM)"

text \<open>
  The host heap as a run meets it: whether the \<^verbatim>\<open>malloc\<close> for each matrix succeeds, and
  the indeterminate contents of the block it returns.
\<close>

record environment =
  alloc_ok :: "matrix_name \<Rightarrow> bool"
  garbage :: "matrix_name \<Rightarrow> buffer"

text \<open>
  The accelerator routine as \<^verbatim>\<open>main\<close> meets it. It is handed the two inputs, the output
  pointer \<^verbatim>\<open>h_C\<close> (\<open>None\<close> when the allocation of \<^verbatim>\<open>h_C\<close> failed, else the block with what
  it holds) and the dimensions. It prints what it prints, and either returns, leaving
  some contents in the block of \<^verbatim>\<open>h_C\<close>, or ends the process itself: by a fatal abort or
  in undefined behaviour. \<^verbatim>\<open>main\<close> makes no test before or after the call (line 54).
\<close>

datatype gpu_result = Gpu_returns buffer | Gpu_aborts | Gpu_undefined fault

type_synonym gpu_routine =
  "buffer \<Rightarrow> buffer \<Rightarrow> buffer option \<Rightarrow> nat \<Rightarrow> nat \<Rightarrow> device_output list \<times> gpu_result"

text \<open>
  Modelled from the spec: a call of \<^verbatim>\<open>gpu_matrix_add\<close> (DeviceAdd, not among the sources)
  as seen from \<^verbatim>\<open>main\<close>. A failure on the accelerator path is fatal: the routine aborts
  the run with a diagnostic, and it meets that failure before it copies anything back.
  Copying the result back through a null \<^verbatim>\<open>h_C\<close>, when there are cells to copy, is the use
  of a null matrix.
\<close>

definition gpu_matrix_add_call :: "device \<Rightarrow> gpu_routine" where
  "gpu_matrix_add_call dev A B p_C dx dy =
     (case p_C of
        Some C \<Rightarrow>
          (case gpu_matrix_add dev A B C dx dy of
             None \<Rightarrow> ([Diagnostic], Gpu_aborts)
           | Some C' \<Rightarrow> ([], Gpu_returns C'))
      | None \<Rightarrow>
          if \<not> device_ok dev \<or> block_x dev = 0 \<or> block_y dev = 0 then ([Diagnostic], Gpu_aborts)
          else if 0 < dx * dy then ([], Gpu_undefined (Null_buffer H_C))
          else ([], Gpu_returns (\<lambda>i. 0)))"

text \<open>
  The product \<^verbatim>\<open>dx*dy\<close> of two \<^verbatim>\<open>int\<close> values as the machine computes it, wrapping around
  in 32 bits, and the argument of \<^verbatim>\<open>malloc\<close>, \<^verbatim>\<open>dx*dy*sizeof(float)\<close>: that product converted
  to a 64-bit \<^verbatim>\<open>size_t\<close> and multiplied by 4 there.
\<close>

definition int_mul :: "int \<Rightarrow> int \<Rightarrow> int" where
  "int_mul a b = (a * b + 2 ^ 31) mod 2 ^ 32 - 2 ^ 31"

definition malloc_bytes :: "int \<Rightarrow> nat" where
  "malloc_bytes count = (nat (count mod 2 ^ 64) * 4) mod 2 ^ 64"

text \<open>The cells of a \<open>dx\<close> by \<open>dy\<close> matrix as they stand, in storage order.\<close>

definition snapshot :: "buffer \<Rightarrow> nat \<Rightarrow> nat \<Rightarrow> cell list" where
  "snapshot m dx dy = map m [0..<dx * dy]"

text \<open>
  Lines 29 to 74 of main.cpp, with the states of the matrices named as they arise: the
  four requests of lines 32 to 35, \<^verbatim>\<open>h_A\<close> and \<^verbatim>\<open>h_B\<close> as lines 38 and 39 leave them,
  \<^verbatim>\<open>h_check\<close> as line 47 leaves it, the pointer \<^verbatim>\<open>h_C\<close> as line 34 left it, and the call of
  line 54. The routines take the dimensions as counts: a dimension that is not positive
  leaves them no cell to touch. Blocks carry no size here, so a write past the end of a
  block is not represented.
\<close>

definition requests :: "environment \<Rightarrow> int \<Rightarrow> int \<Rightarrow> event list" where
  "requests env dx dy =
     map (\<lambda>b. Malloc b (malloc_bytes (int_mul dx dy)) (alloc_ok env b)) [H_A, H_B, H_C, H_check]"

definition h_A_filled :: "environment \<Rightarrow> int \<Rightarrow> int \<Rightarrow> buffer" where
  "h_A_filled env dx dy =
     InitializeMatrixSame (garbage env H_A) (nat dx) (nat dy) MAT_A_VAL ''h_A''"

definition h_B_filled :: "environment \<Rightarrow> int \<Rightarrow> int \<Rightarrow> buffer" where
  "h_B_filled env dx dy =
     InitializeMatrixSame (garbage env H_B) (nat dx) (nat dy) MAT_B_VAL ''h_B''"

definition h_check_summed :: "environment \<Rightarrow> int \<Rightarrow> int \<Rightarrow> buffer" where
  "h_check_summed env dx dy =
     cpu_matrix_add (h_A_filled env dx dy) (h_B_filled env dx dy) (garbage env H_check)
       (nat dx) (nat dy)"

definition h_C_pointer :: "environment \<Rightarrow> buffer option" where
  "h_C_pointer env = (if alloc_ok env H_C then Some (garbage env H_C) else None)"

definition gpu_call ::
    "gpu_routine \<Rightarrow> environment \<Rightarrow> int \<Rightarrow> int \<Rightarrow> device_output list \<times> gpu_result" where
  "gpu_call gpu env dx dy =
     gpu (h_A_filled env dx dy) (h_B_filled env dx dy) (h_C_pointer env) (nat dx) (nat dy)"

text \<open>The two inputs as an addition routine is handed them.\<close>

definition inputs :: "environment \<Rightarrow> int \<Rightarrow> int \<Rightarrow> event list" where
  "inputs env dx dy =
     [Input H_A (snapshot (h_A_filled env dx dy) (nat dx) (nat dy)),
      Input H_B (snapshot (h_B_filled env dx dy) (nat dx) (nat dy))]"

text \<open>
  \<^verbatim>\<open>main\<close> tests no pointer: a null matrix goes to the routine that is next to use it. The
  routines of pch.h that touch every cell (\<^verbatim>\<open>InitializeMatrixSame\<close>, \<^verbatim>\<open>cpu_matrix_add\<close>,
  \<^verbatim>\<open>PrintMatrix\<close>, \<^verbatim>\<open>MatrixVerification\<close>) end the run in undefined behaviour when handed
  a null matrix with cells to touch; what the accelerator routine does with a null
  \<^verbatim>\<open>h_C\<close> is up to that routine.
\<close>

definition null_matrix :: "environment \<Rightarrow> int \<Rightarrow> int \<Rightarrow> matrix_name \<Rightarrow> bool" where
  "null_matrix env dx dy b = (0 < nat dx * nat dy \<and> \<not> alloc_ok env b)"

definition compute_phases ::
    "gpu_routine \<Rightarrow> environment \<Rightarrow> int \<Rightarrow> int \<Rightarrow> event list \<times> outcome" where
  "compute_phases gpu env dx dy =
     (if null_matrix env dx dy H_A
      then (requests env dx dy @ [Init_call H_A], Undefined (Null_buffer H_A))
      else if null_matrix env dx dy H_B
      then (requests env dx dy @ [Init_call H_A, Init_call H_B], Undefined (Null_buffer H_B))
      else
      let l1 = requests env dx dy @ [Init_call H_A, Init_call H_B, Timing_line Init_phase] @
               inputs env dx dy @ [Cpu_add_call]
      in
      if null_matrix env dx dy H_check then (l1, Undefined (Null_buffer H_check))
      else
      let l2 = l1 @ [Timing_line Cpu_phase] @ inputs env dx dy @ [Gpu_add_call] in
      (case gpu_call gpu env dx dy of
         (out, Gpu_aborts) \<Rightarrow> (l2 @ map Device_output out, Aborted)
       | (out, Gpu_undefined f) \<Rightarrow> (l2 @ map Device_output out, Undefined f)
       | (out, Gpu_returns h_C) \<Rightarrow>
           let l3 = l2 @ map Device_output out @ [Timing_line Gpu_phase] @
                    (if dx \<le> 6 \<and> dy \<le> 6
                     then [Dump_heading Cpu_phase,
                           Matrix_dump H_check
                             (PrintMatrix (h_check_summed env dx dy) (nat dx) (nat dy)),
                           Dump_heading Gpu_phase]
                     else [])
           in
           if null_matrix env dx dy H_C then (l3, Undefined (Null_buffer H_C))
           else
             (l3 @ (if dx \<le> 6 \<and> dy \<le> 6
                    then [Matrix_dump H_C (PrintMatrix h_C (nat dx) (nat dy))] else []) @
              [Input H_check (snapshot (h_check_summed env dx dy) (nat dx) (nat dy)),
               Input H_C (snapshot h_C (nat dx) (nat dy)),
               Verification_report
                 (MatrixVerification (h_check_summed env dx dy) h_C (nat dx) (nat dy) VERIF_TOL),
               Free H_A, Free H_B, Free H_C, Free H_check],
              Returned 0)))"

definition main :: "gpu_routine \<Rightarrow> environment \<Rightarrow> string list \<Rightarrow> event list \<times> outcome" where
  "main gpu env argv =
     (case resolve_dims argv of
        Parse_fault f \<Rightarrow> ([], Undefined f)
      | Usage_error \<Rightarrow> ([Usage_message], Returned (- 1))
      | Dims dx dy \<Rightarrow> compute_phases gpu env dx dy)"

section \<open>Reading a run\<close>

fun is_malloc :: "event \<Rightarrow> bool" where
  "is_malloc (Malloc b n ok) = True"
| "is_malloc e = False"

fun is_compute :: "event \<Rightarrow> bool" where
  "is_compute Cpu_add_call = True"
| "is_compute Gpu_add_call = True"
| "is_compute e = False"

fun is_device_output :: "event \<Rightarrow> bool" where
  "is_device_output (Device_output d) = True"
| "is_device_output e = False"

text \<open>What the debugging printout of lines 60 to 65 writes: headings and matrices.\<close>

fun is_printout :: "event \<Rightarrow> bool" where
  "is_printout (Dump_heading p) = True"
| "is_printout (Matrix_dump b cs) = True"
| "is_printout e = False"

section \<open>Sample surroundings\<close>

text \<open>
  A heap on which every allocation succeeds, heaps on which the allocation of one matrix
  fails, an accelerator with 2 by 2 blocks, one whose allocations fail, and an
  accelerator routine that returns without touching \<^verbatim>\<open>h_C\<close>.
\<close>

definition plain_env :: environment where
  "plain_env = \<lparr>alloc_ok = (\<lambda>b. True), garbage = (\<lambda>b i. 0)\<rparr>"

definition starved_env :: "matrix_name \<Rightarrow> environment" where
  "starved_env b = \<lparr>alloc_ok = (\<lambda>b'. b' \<noteq> b), garbage = (\<lambda>b i. 0)\<rparr>"

definition small_device :: device where
  "small_device = \<lparr>block_x = 2, block_y = 2, device_ok = True, device_mem = (\<lambda>k i. 0)\<rparr>"

definition broken_device :: device where
  "broken_device = \<lparr>block_x = 2, block_y = 2, device_ok = False, device_mem = (\<lambda>k i. 0)\<rparr>"

definition untouched_gpu :: gpu_routine where
  "untouched_gpu A B p_C dx dy =
     ([], Gpu_returns (case p_C of Some C \<Rightarrow> C | None \<Rightarrow> (\<lambda>i. 0)))"

section \<open>Cell by cell\<close>

lemma fold_store_cell:
  "fold (\<lambda>i buf. buf(i := f i)) [0..<n] m j = (if j < n then f j else m j)"
  by (induction n arbitrary: j) auto

lemma InitializeMatrixSame_cell:
  "InitializeMatrixSame m dx dy v name j = (if j < dx * dy then v else m j)"
  unfolding InitializeMatrixSame_def by (rule fold_store_cell)

lemma cpu_matrix_add_cell:
  "cpu_matrix_add A B out dx dy j = (if j < dx * dy then A j + B j else out j)"
  unfolding cpu_matrix_add_def by (rule fold_store_cell)

lemma cudaMemcpy_cell:
  "cudaMemcpy dst src n j = (if j < n then src j else dst j)"
  unfolding cudaMemcpy_def by (rule fold_store_cell)

lemma MatrixVerification_zero_iff:
  "MatrixVerification X Y dx dy tol = 0 \<longleftrightarrow> (\<forall>i < dx * dy. \<bar>X i - Y i\<bar> \<le> tol)"
  by (auto simp: MatrixVerification_def filter_empty_conv)

lemma PrintMatrix_replicate:
  "(\<And>i. i < dx * dy \<Longrightarrow> m i = c) \<Longrightarrow> PrintMatrix m dx dy = replicate (dx * dy) c"
  by (simp add: PrintMatrix_def list_eq_iff_nth_eq)

subsection \<open>The kernel launch\<close>

text \<open>
  A unit writes cell \<open>j\<close> exactly when it passes the boundary check and its position is
  that of \<open>j\<close>; every unit that writes \<open>j\<close> writes the same sum there.
\<close>

lemma matrix_add_kernel_cell:
  "matrix_add_kernel d_A d_B dx dy t d_C j =
     (if fst t < dx \<and> snd t < dy \<and> snd t * dx + fst t = j then d_A j + d_B j else d_C j)"
  by (cases t) (simp add: matrix_add_kernel_def)

lemma kernel_fold_cell:
  "fold (matrix_add_kernel d_A d_B dx dy) ts d_C j =
     (if \<exists>t \<in> set ts. fst t < dx \<and> snd t < dy \<and> snd t * dx + fst t = j
      then d_A j + d_B j else d_C j)"
proof (induction ts arbitrary: d_C)
  case Nil
  show ?case by simp
next
  case (Cons t ts)
  let ?K = "matrix_add_kernel d_A d_B dx dy"
  have step: "?K t d_C j =
      (if fst t < dx \<and> snd t < dy \<and> snd t * dx + fst t = j then d_A j + d_B j else d_C j)"
    by (rule matrix_add_kernel_cell)
  have "fold ?K (t # ts) d_C j = fold ?K ts (?K t d_C) j"
    by simp
  also have "\<dots> =
      (if \<exists>t \<in> set ts. fst t < dx \<and> snd t < dy \<and> snd t * dx + fst t = j
       then d_A j + d_B j else ?K t d_C j)"
    by (rule Cons.IH)
  also have "\<dots> =
      (if \<exists>u \<in> set (t # ts). fst u < dx \<and> snd u < dy \<and> snd u * dx + fst u = j
       then d_A j + d_B j else d_C j)"
    by (auto simp: step)
  finally show ?case .
qed

lemma thread_in_launch:
  assumes "bi < gx" and "ti < bx" and "bj < gy" and "tj < by"
  shows "(bi * bx + ti, bj * by + tj) \<in> set (launch_threads bx by gx gy)"
  using assms unfolding launch_threads_def by force

text \<open>The grid, rounded up, reaches every column and every row.\<close>

lemma grid_dim_covers:
  assumes "0 < b" and "c < n"
  shows "c div b < grid_dim n b"
proof -
  have "c div b \<le> (n - 1) div b"
    using assms by (intro div_le_mono) simp
  moreover have "(n - 1 + b) div b = (n - 1) div b + 1"
    using assms by (subst div_add_self2) simp_all
  moreover have "n - 1 + b = n + b - 1"
    using assms by simp
  ultimately show ?thesis by (simp add: grid_dim_def)
qed

lemma thread_for_cell:
  assumes "0 < bx" and "0 < by" and "j < dx * dy"
  shows "\<exists>t \<in> set (launch_threads bx by (grid_dim dx bx) (grid_dim dy by)).
           fst t < dx \<and> snd t < dy \<and> snd t * dx + fst t = j"
proof -
  from assms(3) have dx: "0 < dx" by (cases dx) simp_all
  let ?col = "j mod dx" and ?row = "j div dx"
  have col: "?col < dx" using dx by simp
  have row: "?row < dy" using assms(3) dx by (simp add: less_mult_imp_div_less mult.commute)
  have "(?col div bx * bx + ?col mod bx, ?row div by * by + ?row mod by)
          \<in> set (launch_threads bx by (grid_dim dx bx) (grid_dim dy by))"
    using grid_dim_covers [OF assms(1) col] grid_dim_covers [OF assms(2) row] assms(1,2)
    by (intro thread_in_launch) simp_all
  then have "(?col, ?row) \<in> set (launch_threads bx by (grid_dim dx bx) (grid_dim dy by))"
    by simp
  moreover have "?row * dx + ?col = j" by simp
  ultimately show ?thesis using col row by force
qed

lemma gpu_matrix_add_None:
  "gpu_matrix_add dev A B C dx dy = None \<longleftrightarrow>
     \<not> (device_ok dev \<and> 0 < block_x dev \<and> 0 < block_y dev)"
  by (auto simp: gpu_matrix_add_def Let_def)

lemma gpu_matrix_add_succeeds:
  "device_ok dev \<Longrightarrow> 0 < block_x dev \<Longrightarrow> 0 < block_y dev \<Longrightarrow>
     \<exists>C'. gpu_matrix_add dev A B C dx dy = Some C'"
  by (simp add: gpu_matrix_add_def Let_def)

lemma gpu_matrix_add_cell:
  assumes "gpu_matrix_add dev A B C dx dy = Some C'"
  shows "C' j = (if j < dx * dy then A j + B j else C j)"
proof -
  from assms have ok: "0 < block_x dev" "0 < block_y dev"
    and C': "C' = cudaMemcpy C
        (fold (matrix_add_kernel (cudaMemcpy (device_mem dev 0) A (dx * dy))
                 (cudaMemcpy (device_mem dev 1) B (dx * dy)) dx dy)
           (launch_threads (block_x dev) (block_y dev)
              (grid_dim dx (block_x dev)) (grid_dim dy (block_y dev)))
           (device_mem dev 2)) (dx * dy)"
    by (auto simp: gpu_matrix_add_def Let_def split: if_splits)
  show ?thesis
  proof (cases "j < dx * dy")
    case True
    with thread_for_cell [OF ok True] show ?thesis
      by (simp add: C' cudaMemcpy_cell kernel_fold_cell)
  next
    case False
    then show ?thesis by (simp add: C' cudaMemcpy_cell)
  qed
qed

lemma snapshot_replicate:
  "(\<And>i. i < dx * dy \<Longrightarrow> m i = c) \<Longrightarrow> snapshot m dx dy = replicate (dx * dy) c"
  by (simp add: snapshot_def list_eq_iff_nth_eq)

section \<open>Runs of the harness\<close>

subsection \<open>The accelerator call\<close>

lemma gpu_matrix_add_call_broken:
  "\<not> (device_ok dev \<and> 0 < block_x dev \<and> 0 < block_y dev) \<Longrightarrow>
     gpu_matrix_add_call dev A B p_C dx dy = ([Diagnostic], Gpu_aborts)"
proof -
  assume "\<not> (device_ok dev \<and> 0 < block_x dev \<and> 0 < block_y dev)"
  then have "gpu_matrix_add dev A B C dx dy = None" for C
    by (simp add: gpu_matrix_add_None)
  then show ?thesis
    using \<open>\<not> (device_ok dev \<and> 0 < block_x dev \<and> 0 < block_y dev)\<close>
    by (auto simp: gpu_matrix_add_call_def split: option.splits)
qed

lemma gpu_matrix_add_call_null:
  "device_ok dev \<and> 0 < block_x dev \<and> 0 < block_y dev \<Longrightarrow>
     gpu_matrix_add_call dev A B None dx dy =
       (if 0 < dx * dy then ([], Gpu_undefined (Null_buffer H_C))
        else ([], Gpu_returns (\<lambda>i. 0)))"
  by (simp add: gpu_matrix_add_call_def)

lemma gpu_matrix_add_call_block:
  "gpu_matrix_add dev A B C dx dy = Some C' \<Longrightarrow>
     gpu_matrix_add_call dev A B (Some C) dx dy = ([], Gpu_returns C')"
  by (simp add: gpu_matrix_add_call_def)

text \<open>When the call returns, it has printed nothing and every cell holds the sum.\<close>

lemma gpu_matrix_add_call_returns:
  assumes "gpu_matrix_add_call dev A B p_C dx dy = (out, Gpu_returns h_C)"
  shows "out = [] \<and> (\<forall>j < dx * dy. h_C j = A j + B j) \<and> (p_C = None \<longrightarrow> dx * dy = 0)"
proof (cases p_C)
  case None
  with assms show ?thesis
    by (auto simp: gpu_matrix_add_call_def split: if_splits)
next
  case (Some C)
  with assms obtain C' where run: "gpu_matrix_add dev A B C dx dy = Some C'"
    and res: "out = []" "h_C = C'"
    by (auto simp: gpu_matrix_add_call_def split: option.splits)
  show ?thesis
    using Some res by (simp add: gpu_matrix_add_cell [OF run])
qed

subsection \<open>Any accelerator routine\<close>

lemma list_ex_device_output:
  "list_ex P (map Device_output out) = (\<exists>d \<in> set out. P (Device_output d))"
  by (simp add: list_ex_iff)

lemma filter_printout_device_output:
  "filter is_printout (map Device_output out) = []"
  by (induction out) simp_all

text \<open>
  A run that returns from \<^verbatim>\<open>main\<close> has met no null matrix with cells to touch, its
  accelerator call has returned, and its events are these.
\<close>

lemma compute_phases_returned:
  assumes "snd (compute_phases gpu env dx dy) = Returned 0"
  shows "\<exists>out h_C. gpu_call gpu env dx dy = (out, Gpu_returns h_C) \<and>
           (\<forall>b. \<not> null_matrix env dx dy b) \<and>
           fst (compute_phases gpu env dx dy) =
             requests env dx dy @ [Init_call H_A, Init_call H_B, Timing_line Init_phase] @
             inputs env dx dy @ [Cpu_add_call, Timing_line Cpu_phase] @
             inputs env dx dy @ [Gpu_add_call] @ map Device_output out @ [Timing_line Gpu_phase] @
             (if dx \<le> 6 \<and> dy \<le> 6
              then [Dump_heading Cpu_phase,
                    Matrix_dump H_check (PrintMatrix (h_check_summed env dx dy) (nat dx) (nat dy)),
                    Dump_heading Gpu_phase,
                    Matrix_dump H_C (PrintMatrix h_C (nat dx) (nat dy))]
              else []) @
             [Input H_check (snapshot (h_check_summed env dx dy) (nat dx) (nat dy)),
              Input H_C (snapshot h_C (nat dx) (nat dy)),
              Verification_report
                (MatrixVerification (h_check_summed env dx dy) h_C (nat dx) (nat dy) VERIF_TOL),
              Free H_A, Free H_B, Free H_C, Free H_check]"
proof -
  obtain out r where g: "gpu_call gpu env dx dy = (out, r)"
    by (cases "gpu_call gpu env dx dy")
  have nulls: "\<not> null_matrix env dx dy b" for b
    using assms unfolding compute_phases_def Let_def g
    by (cases b; cases r) (auto split: if_splits)
  from assms obtain h_C where r: "r = Gpu_returns h_C"
    unfolding compute_phases_def Let_def g
    by (cases r) (auto split: if_splits)
  show ?thesis
    unfolding compute_phases_def Let_def g r
    by (simp add: nulls)
qed

lemma compute_phases_report:
  assumes "Verification_report k \<in> set (fst (compute_phases gpu env dx dy))"
  shows "snd (compute_phases gpu env dx dy) = Returned 0 \<and>
         (\<exists>pre. fst (compute_phases gpu env dx dy) =
            pre @ [Verification_report k, Free H_A, Free H_B, Free H_C, Free H_check] \<and>
            Timing_line Init_phase \<in> set pre \<and> Timing_line Cpu_phase \<in> set pre \<and>
            Timing_line Gpu_phase \<in> set pre)"
proof -
  obtain out r where g: "gpu_call gpu env dx dy = (out, r)"
    by (cases "gpu_call gpu env dx dy")
  show ?thesis
    using assms unfolding compute_phases_def Let_def g requests_def inputs_def
    by (cases r) (auto split: if_splits)
qed

lemma compute_phases_mallocs:
  "\<exists>rest. fst (compute_phases gpu env dx dy) = requests env dx dy @ rest \<and>
          \<not> list_ex is_malloc rest"
proof -
  obtain out r where g: "gpu_call gpu env dx dy = (out, r)"
    by (cases "gpu_call gpu env dx dy")
  show ?thesis
    unfolding compute_phases_def Let_def g inputs_def
    by (cases r) (simp_all add: list_ex_device_output)
qed

lemma compute_phases_requests:
  "filter is_malloc (fst (compute_phases gpu env dx dy)) = requests env dx dy"
proof -
  from compute_phases_mallocs [of gpu env dx dy]
  obtain rest where "fst (compute_phases gpu env dx dy) = requests env dx dy @ rest"
    and "\<not> list_ex is_malloc rest" by blast
  moreover have "filter is_malloc (requests env dx dy) = requests env dx dy"
    by (simp add: requests_def)
  moreover have "filter is_malloc rest = []"
    using \<open>\<not> list_ex is_malloc rest\<close> by (simp add: list_ex_iff filter_empty_conv)
  ultimately show ?thesis by simp
qed

lemma compute_phases_cpu_reached:
  "Cpu_add_call \<in> set (fst (compute_phases gpu env dx dy)) \<longleftrightarrow>
     \<not> null_matrix env dx dy H_A \<and> \<not> null_matrix env dx dy H_B"
proof -
  obtain out r where g: "gpu_call gpu env dx dy = (out, r)"
    by (cases "gpu_call gpu env dx dy")
  show ?thesis
    unfolding compute_phases_def Let_def g requests_def inputs_def
    by (cases r) auto
qed

lemma null_matrix_positive:
  "0 < dx \<Longrightarrow> 0 < dy \<Longrightarrow> null_matrix env dx dy b = (\<not> alloc_ok env b)"
  by (simp add: null_matrix_def)

lemma compute_phases_null_host:
  assumes "0 < dx" and "0 < dy"
    and "find (\<lambda>b. \<not> alloc_ok env b) [H_A, H_B, H_check] = Some b"
  shows "snd (compute_phases gpu env dx dy) = Undefined (Null_buffer b) \<and>
         \<not> list_ex is_device_output (fst (compute_phases gpu env dx dy)) \<and>
         Gpu_add_call \<notin> set (fst (compute_phases gpu env dx dy))"
  using assms(3) unfolding compute_phases_def Let_def requests_def inputs_def
  by (auto simp: null_matrix_positive [OF assms(1,2)] split: if_splits)

lemma compute_phases_null_C:
  assumes "0 < dx" and "0 < dy"
    and "alloc_ok env H_A" and "alloc_ok env H_B" and "alloc_ok env H_check"
    and "\<not> alloc_ok env H_C"
  shows "Gpu_add_call \<in> set (fst (compute_phases gpu env dx dy)) \<and>
         h_C_pointer env = None \<and>
         snd (compute_phases gpu env dx dy) =
           (case snd (gpu_call gpu env dx dy) of
              Gpu_returns c \<Rightarrow> Undefined (Null_buffer H_C)
            | Gpu_aborts \<Rightarrow> Aborted
            | Gpu_undefined f \<Rightarrow> Undefined f) \<and>
         (\<forall>k. Verification_report k \<notin> set (fst (compute_phases gpu env dx dy)))"
proof -
  obtain out r where g: "gpu_call gpu env dx dy = (out, r)"
    by (cases "gpu_call gpu env dx dy")
  show ?thesis
    using assms(3-) unfolding compute_phases_def Let_def g requests_def inputs_def
    by (cases r) (auto simp: null_matrix_positive [OF assms(1,2)] h_C_pointer_def)
qed

lemma compute_phases_printout_small:
  assumes "list_ex is_printout (fst (compute_phases gpu env dx dy))"
  shows "dx \<le> 6 \<and> dy \<le> 6"
proof -
  obtain out r where g: "gpu_call gpu env dx dy = (out, r)"
    by (cases "gpu_call gpu env dx dy")
  show ?thesis
    using assms unfolding compute_phases_def Let_def g requests_def inputs_def
    by (cases r) (auto simp: list_ex_device_output split: if_splits)
qed

lemma compute_phases_printout:
  assumes "snd (compute_phases gpu env dx dy) = Returned 0"
  shows "\<exists>out h_C. gpu_call gpu env dx dy = (out, Gpu_returns h_C) \<and>
           filter is_printout (fst (compute_phases gpu env dx dy)) =
             (if dx \<le> 6 \<and> dy \<le> 6
              then [Dump_heading Cpu_phase,
                    Matrix_dump H_check (PrintMatrix (h_check_summed env dx dy) (nat dx) (nat dy)),
                    Dump_heading Gpu_phase,
                    Matrix_dump H_C (PrintMatrix h_C (nat dx) (nat dy))]
              else [])"
proof -
  from compute_phases_returned [OF assms] obtain out h_C
    where g: "gpu_call gpu env dx dy = (out, Gpu_returns h_C)"
      and log: "fst (compute_phases gpu env dx dy) =
             requests env dx dy @ [Init_call H_A, Init_call H_B, Timing_line Init_phase] @
             inputs env dx dy @ [Cpu_add_call, Timing_line Cpu_phase] @
             inputs env dx dy @ [Gpu_add_call] @ map Device_output out @ [Timing_line Gpu_phase] @
             (if dx \<le> 6 \<and> dy \<le> 6
              then [Dump_heading Cpu_phase,
                    Matrix_dump H_check (PrintMatrix (h_check_summed env dx dy) (nat dx) (nat dy)),
                    Dump_heading Gpu_phase,
                    Matrix_dump H_C (PrintMatrix h_C (nat dx) (nat dy))]
              else []) @
             [Input H_check (snapshot (h_check_summed env dx dy) (nat dx) (nat dy)),
              Input H_C (snapshot h_C (nat dx) (nat dy)),
              Verification_report
                (MatrixVerification (h_check_summed env dx dy) h_C (nat dx) (nat dy) VERIF_TOL),
              Free H_A, Free H_B, Free H_C, Free H_check]"
    by blast
  have "filter is_printout (fst (compute_phases gpu env dx dy)) =
             (if dx \<le> 6 \<and> dy \<le> 6
              then [Dump_heading Cpu_phase,
                    Matrix_dump H_check (PrintMatrix (h_check_summed env dx dy) (nat dx) (nat dy)),
                    Dump_heading Gpu_phase,
                    Matrix_dump H_C (PrintMatrix h_C (nat dx) (nat dy))]
              else [])"
    unfolding log by (simp add: requests_def inputs_def filter_printout_device_output)
  with g show ?thesis by blast
qed

lemma compute_phases_printout_reference:
  assumes "Timing_line Gpu_phase \<in> set (fst (compute_phases gpu env dx dy))"
    and "dx \<le> 6" and "dy \<le> 6"
  shows "Matrix_dump H_check (PrintMatrix (h_check_summed env dx dy) (nat dx) (nat dy))
           \<in> set (fst (compute_phases gpu env dx dy))"
proof -
  obtain out r where g: "gpu_call gpu env dx dy = (out, r)"
    by (cases "gpu_call gpu env dx dy")
  show ?thesis
    using assms unfolding compute_phases_def Let_def g requests_def inputs_def
    by (cases r) (auto split: if_splits)
qed

subsection \<open>Sizes\<close>

lemma int_mul_exact:
  assumes "INT_MIN \<le> a * b" and "a * b \<le> INT_MAX"
  shows "int_mul a b = a * b"
proof -
  have "0 \<le> a * b + 2 ^ 31" and "a * b + 2 ^ 31 < 2 ^ 32"
    using assms by (simp_all add: INT_MIN_def INT_MAX_def)
  then have "(a * b + 2 ^ 31) mod 2 ^ 32 = a * b + 2 ^ 31"
    by simp
  then show ?thesis by (simp add: int_mul_def)
qed

lemma malloc_bytes_cells:
  assumes "0 \<le> dx" and "0 \<le> dy" and "dx * dy \<le> INT_MAX"
  shows "malloc_bytes (int_mul dx dy) = 4 * (nat dx * nat dy)"
proof -
  have nn: "0 \<le> dx * dy" using assms by simp
  then have "INT_MIN \<le> dx * dy" by (simp add: INT_MIN_def)
  then have exact: "int_mul dx dy = dx * dy" using assms(3) by (rule int_mul_exact)
  have "dx * dy < 2 ^ 64" using assms(3) by (simp add: INT_MAX_def)
  then have "nat ((dx * dy) mod 2 ^ 64) = nat (dx * dy)" using nn by simp
  moreover have "nat (dx * dy) * 4 < 2 ^ 64" using assms(3) nn by (simp add: INT_MAX_def)
  ultimately show ?thesis using assms(1,2)
    by (simp add: exact malloc_bytes_def nat_mult_distrib)
qed

subsection \<open>The accelerator routine of the spec\<close>

lemma h_A_filled_cell:
  "j < nat dx * nat dy \<Longrightarrow> h_A_filled env dx dy j = MAT_A_VAL"
  by (simp add: h_A_filled_def InitializeMatrixSame_cell)

lemma h_B_filled_cell:
  "j < nat dx * nat dy \<Longrightarrow> h_B_filled env dx dy j = MAT_B_VAL"
  by (simp add: h_B_filled_def InitializeMatrixSame_cell)

lemma h_check_summed_cell:
  "j < nat dx * nat dy \<Longrightarrow> h_check_summed env dx dy j = MAT_A_VAL + MAT_B_VAL"
  by (simp add: h_check_summed_def cpu_matrix_add_cell h_A_filled_cell h_B_filled_cell)

lemma snapshot_h_A:
  "snapshot (h_A_filled env dx dy) (nat dx) (nat dy) = replicate (nat dx * nat dy) MAT_A_VAL"
  by (rule snapshot_replicate) (rule h_A_filled_cell)

lemma snapshot_h_B:
  "snapshot (h_B_filled env dx dy) (nat dx) (nat dy) = replicate (nat dx * nat dy) MAT_B_VAL"
  by (rule snapshot_replicate) (rule h_B_filled_cell)

lemma snapshot_h_check:
  "snapshot (h_check_summed env dx dy) (nat dx) (nat dy) =
     replicate (nat dx * nat dy) (MAT_A_VAL + MAT_B_VAL)"
  by (rule snapshot_replicate) (rule h_check_summed_cell)

lemma PrintMatrix_h_check:
  "PrintMatrix (h_check_summed env dx dy) (nat dx) (nat dy) =
     replicate (nat dx * nat dy) (MAT_A_VAL + MAT_B_VAL)"
  by (rule PrintMatrix_replicate) (rule h_check_summed_cell)

lemma device_call_broken:
  assumes "\<not> (device_ok dev \<and> 0 < block_x dev \<and> 0 < block_y dev)"
  shows "gpu_call (gpu_matrix_add_call dev) env dx dy = ([Diagnostic], Gpu_aborts)"
  unfolding gpu_call_def by (rule gpu_matrix_add_call_broken [OF assms])

lemma device_call_null:
  assumes "device_ok dev \<and> 0 < block_x dev \<and> 0 < block_y dev"
    and "null_matrix env dx dy H_C"
  shows "gpu_call (gpu_matrix_add_call dev) env dx dy = ([], Gpu_undefined (Null_buffer H_C))"
  using assms(2) unfolding gpu_call_def
  by (simp add: null_matrix_def h_C_pointer_def gpu_matrix_add_call_null [OF assms(1)])

text \<open>
  Otherwise the call returns, having printed nothing, and the matrix it leaves in
  \<^verbatim>\<open>h_C\<close> holds the sum of the two fill values in every cell.
\<close>

lemma device_call_returns:
  assumes "device_ok dev \<and> 0 < block_x dev \<and> 0 < block_y dev"
    and "\<not> null_matrix env dx dy H_C"
  shows "\<exists>h_C. gpu_call (gpu_matrix_add_call dev) env dx dy = ([], Gpu_returns h_C) \<and>
           snapshot h_C (nat dx) (nat dy) = replicate (nat dx * nat dy) (MAT_A_VAL + MAT_B_VAL) \<and>
           PrintMatrix h_C (nat dx) (nat dy) = replicate (nat dx * nat dy) (MAT_A_VAL + MAT_B_VAL) \<and>
           MatrixVerification (h_check_summed env dx dy) h_C (nat dx) (nat dy) VERIF_TOL = 0"
proof -
  have "\<exists>h_C. gpu_call (gpu_matrix_add_call dev) env dx dy = ([], Gpu_returns h_C)"
  proof (cases "alloc_ok env H_C")
    case True
    from gpu_matrix_add_succeeds [of dev] assms(1)
    obtain C' where "gpu_matrix_add dev (h_A_filled env dx dy) (h_B_filled env dx dy)
        (garbage env H_C) (nat dx) (nat dy) = Some C'"
      by blast
    then show ?thesis
      using True by (simp add: gpu_call_def h_C_pointer_def gpu_matrix_add_call_block)
  next
    case False
    with assms(2) have "nat dx * nat dy = 0"
      by (auto simp: null_matrix_def)
    then show ?thesis
      using False assms(1)
      by (auto simp: gpu_call_def h_C_pointer_def gpu_matrix_add_call_null)
  qed
  then obtain h_C where g: "gpu_call (gpu_matrix_add_call dev) env dx dy = ([], Gpu_returns h_C)"
    by blast
  from gpu_matrix_add_call_returns [OF g [unfolded gpu_call_def]]
  have cell: "h_C j = MAT_A_VAL + MAT_B_VAL" if "j < nat dx * nat dy" for j
    using that by (simp add: h_A_filled_cell h_B_filled_cell)
  have verified: "MatrixVerification (h_check_summed env dx dy) h_C (nat dx) (nat dy) VERIF_TOL = 0"
    by (simp add: MatrixVerification_zero_iff cell h_check_summed_cell VERIF_TOL_def)
  from g cell verified show ?thesis
    by (auto intro: snapshot_replicate PrintMatrix_replicate)
qed

lemma compute_phases_device_report:
  assumes "Verification_report k \<in> set (fst (compute_phases (gpu_matrix_add_call dev) env dx dy))"
  shows "k = 0"
proof -
  let ?gpu = "gpu_matrix_add_call dev"
  from compute_phases_report [OF assms]
  have ret: "snd (compute_phases ?gpu env dx dy) = Returned 0" by simp
  from compute_phases_returned [OF ret] obtain out h_C
    where g: "gpu_call ?gpu env dx dy = (out, Gpu_returns h_C)"
      and nulls: "\<forall>b. \<not> null_matrix env dx dy b"
    by blast
  have ok: "device_ok dev \<and> 0 < block_x dev \<and> 0 < block_y dev"
  proof (rule ccontr)
    assume "\<not> (device_ok dev \<and> 0 < block_x dev \<and> 0 < block_y dev)"
    from device_call_broken [OF this, of env dx dy] g show False by simp
  qed
  from device_call_returns [OF ok, of env dx dy] nulls g
  have zero: "MatrixVerification (h_check_summed env dx dy) h_C (nat dx) (nat dy) VERIF_TOL = 0"
    and out: "out = []"
    by auto
  from assms show ?thesis
    unfolding compute_phases_def Let_def g requests_def inputs_def
    by (auto simp: zero out nulls split: if_splits)
qed

lemma compute_phases_device_abort:
  assumes "0 < dx" and "0 < dy"
    and "alloc_ok env H_A \<and> alloc_ok env H_B \<and> alloc_ok env H_check"
    and "\<not> device_ok dev"
  shows "compute_phases (gpu_matrix_add_call dev) env dx dy =
           (requests env dx dy @ [Init_call H_A, Init_call H_B, Timing_line Init_phase] @
            inputs env dx dy @ [Cpu_add_call, Timing_line Cpu_phase] @
            inputs env dx dy @ [Gpu_add_call, Device_output Diagnostic], Aborted)"
proof -
  have g: "gpu_call (gpu_matrix_add_call dev) env dx dy = ([Diagnostic], Gpu_aborts)"
    using assms(4) by (intro device_call_broken) simp
  show ?thesis
    using assms(3) unfolding compute_phases_def Let_def g
    by (simp add: null_matrix_positive [OF assms(1,2)])
qed

text \<open>
  Every matrix a routine is handed to read, or that is printed, holds in each of its
  cells the value its producer wrote there.
\<close>

lemma compute_phases_device_inputs:
  assumes "Input M cs \<in> set (fst (compute_phases (gpu_matrix_add_call dev) env dx dy)) \<or>
           Matrix_dump M cs \<in> set (fst (compute_phases (gpu_matrix_add_call dev) env dx dy))"
  shows "cs = replicate (nat dx * nat dy)
           (case M of H_A \<Rightarrow> MAT_A_VAL | H_B \<Rightarrow> MAT_B_VAL
            | H_C \<Rightarrow> MAT_A_VAL + MAT_B_VAL | H_check \<Rightarrow> MAT_A_VAL + MAT_B_VAL)"
proof -
  let ?gpu = "gpu_matrix_add_call dev"
  note host = snapshot_h_A snapshot_h_B snapshot_h_check PrintMatrix_h_check
  consider (broken) "\<not> (device_ok dev \<and> 0 < block_x dev \<and> 0 < block_y dev)"
    | (null) "device_ok dev \<and> 0 < block_x dev \<and> 0 < block_y dev" "null_matrix env dx dy H_C"
    | (returns) "device_ok dev \<and> 0 < block_x dev \<and> 0 < block_y dev" "\<not> null_matrix env dx dy H_C"
    by blast
  then show ?thesis
  proof cases
    case broken
    from assms show ?thesis
      unfolding compute_phases_def Let_def device_call_broken [OF broken] requests_def inputs_def
      by (auto simp: host split: if_splits)
  next
    case null
    from assms show ?thesis
      unfolding compute_phases_def Let_def device_call_null [OF null] requests_def inputs_def
      by (auto simp: host split: if_splits)
  next
    case returns
    from device_call_returns [OF returns] obtain h_C
      where g: "gpu_call ?gpu env dx dy = ([], Gpu_returns h_C)"
        and dev: "snapshot h_C (nat dx) (nat dy) = replicate (nat dx * nat dy) (MAT_A_VAL + MAT_B_VAL)"
          "PrintMatrix h_C (nat dx) (nat dy) = replicate (nat dx * nat dy) (MAT_A_VAL + MAT_B_VAL)"
      by blast
    from assms show ?thesis
      unfolding compute_phases_def Let_def g requests_def inputs_def
      by (auto simp: host dev split: if_splits)
  qed
qed

lemma compute_phases_cpu_inputs:
  assumes "Cpu_add_call \<in> set (fst (compute_phases gpu env dx dy))"
  shows "Input H_A (replicate (nat dx * nat dy) MAT_A_VAL) \<in> set (fst (compute_phases gpu env dx dy)) \<and>
         Input H_B (replicate (nat dx * nat dy) MAT_B_VAL) \<in> set (fst (compute_phases gpu env dx dy))"
proof -
  obtain out r where g: "gpu_call gpu env dx dy = (out, r)"
    by (cases "gpu_call gpu env dx dy")
  from assms show ?thesis
    unfolding compute_phases_def Let_def g requests_def inputs_def snapshot_h_A snapshot_h_B
    by (cases r) (auto split: if_splits)
qed

text \<open>
  With the accelerator routine of the spec, a run does not depend on what the allocated
  blocks held.
\<close>

lemma compute_phases_garbage:
  "compute_phases (gpu_matrix_add_call dev) (env\<lparr>garbage := g\<rparr>) dx dy =
   compute_phases (gpu_matrix_add_call dev) env dx dy"
proof -
  let ?gpu = "gpu_matrix_add_call dev" and ?env = "env\<lparr>garbage := g\<rparr>"
  note host = snapshot_h_A snapshot_h_B snapshot_h_check PrintMatrix_h_check
  have nulls: "null_matrix ?env dx dy b = null_matrix env dx dy b" for b
    by (simp add: null_matrix_def)
  have reqs: "requests ?env dx dy = requests env dx dy"
    by (simp add: requests_def)
  consider (broken) "\<not> (device_ok dev \<and> 0 < block_x dev \<and> 0 < block_y dev)"
    | (null) "device_ok dev \<and> 0 < block_x dev \<and> 0 < block_y dev" "null_matrix env dx dy H_C"
    | (returns) "device_ok dev \<and> 0 < block_x dev \<and> 0 < block_y dev" "\<not> null_matrix env dx dy H_C"
    by blast
  then show ?thesis
  proof cases
    case broken
    show ?thesis
      unfolding compute_phases_def Let_def device_call_broken [OF broken] inputs_def
      by (simp add: host nulls reqs)
  next
    case null
    from null(2) have null': "null_matrix ?env dx dy H_C" by (simp add: nulls)
    show ?thesis
      unfolding compute_phases_def Let_def device_call_null [OF null]
        device_call_null [OF null(1) null'] inputs_def
      by (simp add: host nulls reqs)
  next
    case returns
    from returns(2) have ret': "\<not> null_matrix ?env dx dy H_C" by (simp add: nulls)
    from device_call_returns [OF returns] obtain h1
      where g1: "gpu_call ?gpu env dx dy = ([], Gpu_returns h1)"
        and d1: "snapshot h1 (nat dx) (nat dy) = replicate (nat dx * nat dy) (MAT_A_VAL + MAT_B_VAL)"
          "PrintMatrix h1 (nat dx) (nat dy) = replicate (nat dx * nat dy) (MAT_A_VAL + MAT_B_VAL)"
          "MatrixVerification (h_check_summed env dx dy) h1 (nat dx) (nat dy) VERIF_TOL = 0"
      by blast
    from device_call_returns [OF returns(1) ret'] obtain h2
      where g2: "gpu_call ?gpu ?env dx dy = ([], Gpu_returns h2)"
        and d2: "snapshot h2 (nat dx) (nat dy) = replicate (nat dx * nat dy) (MAT_A_VAL + MAT_B_VAL)"
          "PrintMatrix h2 (nat dx) (nat dy) = replicate (nat dx * nat dy) (MAT_A_VAL + MAT_B_VAL)"
          "MatrixVerification (h_check_summed ?env dx dy) h2 (nat dx) (nat dy) VERIF_TOL = 0"
      by blast
    show ?thesis
      unfolding compute_phases_def Let_def g1 g2 inputs_def
      by (simp add: host nulls reqs d1 d2)
  qed
qed

lemma compute_phases_device_completes:
  assumes "device_ok dev \<and> 0 < block_x dev \<and> 0 < block_y dev"
    and "\<And>b. \<not> null_matrix env dx dy b"
  shows "snd (compute_phases (gpu_matrix_add_call dev) env dx dy) = Returned 0"
proof -
  from device_call_returns [OF assms(1) assms(2)] obtain h_C
    where g: "gpu_call (gpu_matrix_add_call dev) env dx dy = ([], Gpu_returns h_C)"
    by blast
  show ?thesis
    unfolding compute_phases_def Let_def g by (simp add: assms(2))
qed

subsection \<open>Sample runs\<close>

lemmas parse_defs =
  resolve_dims_def argv_at_def atoi_def isspace_def isdigit_def INT_MIN_def INT_MAX_def Let_def

lemmas run_defs =
  main_def parse_defs compute_phases_def requests_def inputs_def null_matrix_def gpu_call_def
  h_C_pointer_def malloc_bytes_def int_mul_def snapshot_def PrintMatrix_def
  MatrixVerification_def MAT_A_VAL_def MAT_B_VAL_def VERIF_TOL_def

lemmas cell_defs =
  h_A_filled_def h_B_filled_def h_check_summed_def cpu_matrix_add_cell InitializeMatrixSame_cell

lemma upt_4: "[0..<4] = [0, 1, 2, 3]"
  by (simp add: upt_rec)

lemma small_device_ok:
  "device_ok small_device \<and> 0 < block_x small_device \<and> 0 < block_y small_device"
  by (simp add: small_device_def)

lemma plain_env_no_null: "\<not> null_matrix plain_env dx dy b"
  by (simp add: null_matrix_def plain_env_def)

lemma resolve_dims_2_2: "resolve_dims [''./executable'', ''2'', ''2''] = Dims 2 2"
  by (simp add: parse_defs)

lemma resolve_dims_7_2: "resolve_dims [''./executable'', ''7'', ''2''] = Dims 7 2"
  by (simp add: parse_defs)

lemma resolve_dims_0_5: "resolve_dims [''./executable'', ''0'', ''5''] = Dims 0 5"
  by (simp add: parse_defs)

lemma resolve_dims_65536:
  "resolve_dims [''./executable'', ''65536'', ''65536''] = Dims 65536 65536"
  by (simp add: parse_defs)

lemma run_untouched_2_2:
  "main untouched_gpu plain_env [''./executable'', ''2'', ''2''] =
     ([Malloc H_A 16 True, Malloc H_B 16 True, Malloc H_C 16 True, Malloc H_check 16 True,
       Init_call H_A, Init_call H_B, Timing_line Init_phase,
       Input H_A [3, 3, 3, 3], Input H_B [2, 2, 2, 2], Cpu_add_call, Timing_line Cpu_phase,
       Input H_A [3, 3, 3, 3], Input H_B [2, 2, 2, 2], Gpu_add_call, Timing_line Gpu_phase,
       Dump_heading Cpu_phase, Matrix_dump H_check [5, 5, 5, 5],
       Dump_heading Gpu_phase, Matrix_dump H_C [0, 0, 0, 0],
       Input H_check [5, 5, 5, 5], Input H_C [0, 0, 0, 0],
       Verification_report 4, Free H_A, Free H_B, Free H_C, Free H_check], Returned 0)"
  by (simp add: run_defs cell_defs plain_env_def untouched_gpu_def upt_4)

lemma run_untouched_null_C:
  "main untouched_gpu (starved_env H_C) [''./executable'', ''2'', ''2''] =
     ([Malloc H_A 16 True, Malloc H_B 16 True, Malloc H_C 16 False, Malloc H_check 16 True,
       Init_call H_A, Init_call H_B, Timing_line Init_phase,
       Input H_A [3, 3, 3, 3], Input H_B [2, 2, 2, 2], Cpu_add_call, Timing_line Cpu_phase,
       Input H_A [3, 3, 3, 3], Input H_B [2, 2, 2, 2], Gpu_add_call, Timing_line Gpu_phase,
       Dump_heading Cpu_phase, Matrix_dump H_check [5, 5, 5, 5], Dump_heading Gpu_phase],
      Undefined (Null_buffer H_C))"
  by (simp add: run_defs cell_defs starved_env_def untouched_gpu_def upt_4)

lemma run_device_2_2:
  "main (gpu_matrix_add_call small_device) plain_env [''./executable'', ''2'', ''2''] =
     ([Malloc H_A 16 True, Malloc H_B 16 True, Malloc H_C 16 True, Malloc H_check 16 True,
       Init_call H_A, Init_call H_B, Timing_line Init_phase,
       Input H_A [3, 3, 3, 3], Input H_B [2, 2, 2, 2], Cpu_add_call, Timing_line Cpu_phase,
       Input H_A [3, 3, 3, 3], Input H_B [2, 2, 2, 2], Gpu_add_call, Timing_line Gpu_phase,
       Dump_heading Cpu_phase, Matrix_dump H_check [5, 5, 5, 5],
       Dump_heading Gpu_phase, Matrix_dump H_C [5, 5, 5, 5],
       Input H_check [5, 5, 5, 5], Input H_C [5, 5, 5, 5],
       Verification_report 0, Free H_A, Free H_B, Free H_C, Free H_check], Returned 0)"
proof -
  from device_call_returns [OF small_device_ok plain_env_no_null, of 2 2] obtain h_C
    where g: "gpu_call (gpu_matrix_add_call small_device) plain_env 2 2 = ([], Gpu_returns h_C)"
      and d: "snapshot h_C (nat 2) (nat 2) = replicate (nat 2 * nat 2) (MAT_A_VAL + MAT_B_VAL)"
        "PrintMatrix h_C (nat 2) (nat 2) = replicate (nat 2 * nat 2) (MAT_A_VAL + MAT_B_VAL)"
        "MatrixVerification (h_check_summed plain_env 2 2) h_C (nat 2) (nat 2) VERIF_TOL = 0"
    by blast
  have four: "replicate 4 c = [c, c, c, c]" for c :: cell
    by (simp add: numeral_eq_Suc)
  from d have device: "snapshot h_C 2 2 = [5, 5, 5, 5]" "PrintMatrix h_C 2 2 = [5, 5, 5, 5]"
      "MatrixVerification (h_check_summed plain_env 2 2) h_C 2 2 VERIF_TOL = 0"
    by (simp_all add: four MAT_A_VAL_def MAT_B_VAL_def)
  have host: "snapshot (h_A_filled plain_env 2 2) 2 2 = [3, 3, 3, 3]"
      "snapshot (h_B_filled plain_env 2 2) 2 2 = [2, 2, 2, 2]"
      "snapshot (h_check_summed plain_env 2 2) 2 2 = [5, 5, 5, 5]"
      "PrintMatrix (h_check_summed plain_env 2 2) 2 2 = [5, 5, 5, 5]"
    using snapshot_h_A [of plain_env 2 2] snapshot_h_B [of plain_env 2 2]
      snapshot_h_check [of plain_env 2 2] PrintMatrix_h_check [of plain_env 2 2]
    by (simp_all add: four MAT_A_VAL_def MAT_B_VAL_def)
  have ok: "alloc_ok plain_env b" for b
    by (simp add: plain_env_def)
  show ?thesis
    unfolding main_def resolve_dims_2_2 resolved.case compute_phases_def Let_def g
    by (simp add: plain_env_no_null device host inputs_def requests_def ok malloc_bytes_def
          int_mul_def)
qed

lemma run_device_7_2_returns:
  "snd (main (gpu_matrix_add_call small_device) plain_env [''./executable'', ''7'', ''2'']) =
     Returned 0"
  by (simp add: main_def resolve_dims_7_2
        compute_phases_device_completes [OF small_device_ok plain_env_no_null])

section \<open>The claims\<close>

subsection \<open>Device addition against host addition\<close>

text \<open>
  Claim C1. Whenever the accelerator path succeeds (allocations, copies and launch go
  through, with block dimensions of at least one), the matrix that \<^verbatim>\<open>gpu_matrix_add\<close>
  leaves in \<^verbatim>\<open>h_C\<close> equals the matrix that \<^verbatim>\<open>cpu_matrix_add\<close> leaves in \<^verbatim>\<open>h_check\<close> at
  every cell of the \<open>dx\<close> by \<open>dy\<close> grid, hence within \<^verbatim>\<open>VERIF_TOL\<close>, whatever the inputs and
  whatever the output blocks held before; \<^verbatim>\<open>MatrixVerification\<close> counts zero mismatches,
  and every verification report of a run of \<^verbatim>\<open>main\<close> with this routine says zero.
\<close>

theorem gpu_matrix_add_agrees_with_cpu_matrix_add:
  assumes "device_ok dev" and "0 < block_x dev" and "0 < block_y dev"
  shows "(\<exists>h_C. gpu_matrix_add dev A B gC dx dy = Some h_C \<and>
            (\<forall>i < dx * dy. h_C i = cpu_matrix_add A B gK dx dy i \<and>
                            \<bar>cpu_matrix_add A B gK dx dy i - h_C i\<bar> \<le> VERIF_TOL) \<and>
            MatrixVerification (cpu_matrix_add A B gK dx dy) h_C dx dy VERIF_TOL = 0) \<and>
         (\<forall>k. Verification_report k \<in> set (fst (main (gpu_matrix_add_call dev) env argv)) \<longrightarrow>
              k = 0)"
proof -
  from gpu_matrix_add_succeeds [OF assms]
  obtain h_C where run: "gpu_matrix_add dev A B gC dx dy = Some h_C" by blast
  have eq: "h_C i = cpu_matrix_add A B gK dx dy i" if "i < dx * dy" for i
    using that by (simp add: gpu_matrix_add_cell [OF run] cpu_matrix_add_cell)
  have tol: "\<bar>cpu_matrix_add A B gK dx dy i - h_C i\<bar> \<le> VERIF_TOL" if "i < dx * dy" for i
    using eq [OF that] by (simp add: VERIF_TOL_def)
  have zero: "MatrixVerification (cpu_matrix_add A B gK dx dy) h_C dx dy VERIF_TOL = 0"
    using tol by (simp add: MatrixVerification_zero_iff)
  have report: "k = 0"
    if "Verification_report k \<in> set (fst (main (gpu_matrix_add_call dev) env argv))" for k
    using that compute_phases_device_report [of k dev env]
    by (auto simp: main_def split: resolved.splits)
  from run eq tol zero report show ?thesis by blast
qed

theorem gpu_matrix_add_agrees_with_cpu_matrix_add_witness:
  "device_ok small_device \<and> 0 < block_x small_device \<and> 0 < block_y small_device \<and>
   (\<exists>h_C. gpu_matrix_add small_device
             (InitializeMatrixSame (\<lambda>i. 0) 4 4 MAT_A_VAL ''h_A'')
             (InitializeMatrixSame (\<lambda>i. 0) 4 4 MAT_B_VAL ''h_B'') (\<lambda>i. 0) 4 4 = Some h_C \<and>
           MatrixVerification
             (cpu_matrix_add (InitializeMatrixSame (\<lambda>i. 0) 4 4 MAT_A_VAL ''h_A'')
                (InitializeMatrixSame (\<lambda>i. 0) 4 4 MAT_B_VAL ''h_B'') (\<lambda>i. 0) 4 4)
             h_C 4 4 VERIF_TOL = 0)"
proof -
  have h1: "device_ok small_device" and h2: "0 < block_x small_device"
    and h3: "0 < block_y small_device"
    by (simp_all add: small_device_def)
  from gpu_matrix_add_agrees_with_cpu_matrix_add [OF h1 h2 h3,
      of "InitializeMatrixSame (\<lambda>i. 0) 4 4 MAT_A_VAL ''h_A''"
         "InitializeMatrixSame (\<lambda>i. 0) 4 4 MAT_B_VAL ''h_B''" "\<lambda>i. 0" 4 4 "\<lambda>i. 0"]
  show ?thesis using h1 h2 h3 by blast
qed

subsection \<open>Resolving the dimensions\<close>

text \<open>
  Claim C2. The claim has every argument count other than none or two positional
  arguments rejected with the usage message and a non-zero status. With one positional
  argument the code does not do so: the test \<^verbatim>\<open>argc > 1 && argc < 4\<close> holds, nothing is
  printed, and the run ends in the undefined \<^verbatim>\<open>atoi\<close> of the null pointer \<^verbatim>\<open>argv[2]\<close>.
\<close>

theorem single_argument_not_rejected:
  "main (gpu_matrix_add_call small_device) plain_env [''./executable'', ''7''] =
     ([], Undefined Null_argument)"
  by (simp add: main_def parse_defs)

text \<open>
  Claim C3. With exactly one positional argument (\<open>argc = 2\<close>) the argument-count test
  takes the parsing branch; \<^verbatim>\<open>argv[2]\<close> lies past the supplied arguments (it is the
  closing null pointer), so \<^verbatim>\<open>atoi\<close> of it is undefined: no second dimension is obtained
  from the user, and the run ends in undefined behaviour having printed nothing.
\<close>

theorem one_positional_argument_reads_past_argv:
  assumes "length argv = 2"
  shows "1 < int (length argv) \<and> int (length argv) < 4 \<and>
         argv_at argv 2 = None \<and>
         atoi (argv_at argv 2) = Inl Null_argument \<and>
         (\<exists>f. resolve_dims argv = Parse_fault f \<and> main gpu env argv = ([], Undefined f))"
  using assms
  by (auto simp: resolve_dims_def main_def argv_at_def atoi_def Let_def split: sum.splits)

theorem one_positional_argument_reads_past_argv_witness:
  "length [''./executable'', ''1024''] = 2 \<and>
   argv_at [''./executable'', ''1024''] 2 = None \<and>
   resolve_dims [''./executable'', ''1024''] = Parse_fault Null_argument \<and>
   main untouched_gpu plain_env [''./executable'', ''1024''] = ([], Undefined Null_argument)"
  using one_positional_argument_reads_past_argv
    [of "[''./executable'', ''1024'']" untouched_gpu plain_env]
  by (simp add: main_def parse_defs)

text \<open>
  Claim C4. With three or more positional arguments (\<open>argc \<ge> 4\<close>) the run prints the
  usage message and returns \<open>-1\<close>, a non-zero status; it requests no matrix and calls
  neither addition.
\<close>

theorem too_many_arguments_usage_error:
  assumes "4 \<le> length argv"
  shows "main gpu env argv = ([Usage_message], Returned (- 1)) \<and>
         snd (main gpu env argv) \<noteq> Returned 0 \<and>
         \<not> list_ex is_malloc (fst (main gpu env argv)) \<and>
         \<not> list_ex is_compute (fst (main gpu env argv))"
  using assms by (simp add: resolve_dims_def main_def)

theorem too_many_arguments_usage_error_witness:
  "4 \<le> length [''./executable'', ''4'', ''4'', ''4''] \<and>
   main untouched_gpu plain_env [''./executable'', ''4'', ''4'', ''4''] =
     ([Usage_message], Returned (- 1))"
  using too_many_arguments_usage_error
    [of "[''./executable'', ''4'', ''4'', ''4'']" untouched_gpu plain_env]
  by simp

subsection \<open>Allocation failure\<close>

text \<open>
  Claim C5, as stated, fails: \<^verbatim>\<open>main\<close> does not test what \<^verbatim>\<open>malloc\<close> returns. When the
  allocation of \<^verbatim>\<open>h_A\<close> fails on a 2 by 2 run, no diagnostic is printed and the run does not
  abort: the null matrix goes to \<^verbatim>\<open>InitializeMatrixSame\<close>.
\<close>

theorem failed_host_allocation_is_used:
  "main (gpu_matrix_add_call small_device) (starved_env H_A) [''./executable'', ''2'', ''2''] =
     ([Malloc H_A 16 False, Malloc H_B 16 True, Malloc H_C 16 True, Malloc H_check 16 True,
       Init_call H_A], Undefined (Null_buffer H_A))"
  by (simp add: run_defs starved_env_def)

text \<open>
  Claim C5, amended. On a run with dimensions \<open>dx, dy > 0\<close>: each of the four host
  matrices is requested exactly once, so no allocation is retried, and \<^verbatim>\<open>main\<close> tests none
  of the results. A failed allocation of \<^verbatim>\<open>h_A\<close>, \<^verbatim>\<open>h_B\<close> or \<^verbatim>\<open>h_check\<close> brings no
  diagnostic and no abort: the run goes on until the null matrix is handed to the routine
  that is first to use it, where its behaviour is undefined, before the accelerator
  routine is called. A failed allocation of \<^verbatim>\<open>h_C\<close> is handed to the accelerator routine
  untested: the run ends as that routine ends it or, if the routine returns, in the
  undefined use of the null \<^verbatim>\<open>h_C\<close> by \<^verbatim>\<open>PrintMatrix\<close> or \<^verbatim>\<open>MatrixVerification\<close>, with no
  verification report. A failure on the accelerator path makes \<^verbatim>\<open>gpu_matrix_add\<close>, as the
  spec describes it, abort the run with a diagnostic, after which \<^verbatim>\<open>main\<close> does nothing
  more.
\<close>

theorem allocation_failure_handling:
  assumes "resolve_dims argv = Dims dx dy" and "0 < dx" and "0 < dy"
  shows "filter is_malloc (fst (main gpu env argv)) =
           map (\<lambda>b. Malloc b (malloc_bytes (int_mul dx dy)) (alloc_ok env b))
             [H_A, H_B, H_C, H_check] \<and>
         (\<forall>b. find (\<lambda>b. \<not> alloc_ok env b) [H_A, H_B, H_check] = Some b \<longrightarrow>
            snd (main gpu env argv) = Undefined (Null_buffer b) \<and>
            \<not> list_ex is_device_output (fst (main gpu env argv)) \<and>
            Gpu_add_call \<notin> set (fst (main gpu env argv))) \<and>
         (alloc_ok env H_A \<and> alloc_ok env H_B \<and> alloc_ok env H_check \<and> \<not> alloc_ok env H_C \<longrightarrow>
            Gpu_add_call \<in> set (fst (main gpu env argv)) \<and>
            h_C_pointer env = None \<and>
            snd (main gpu env argv) =
              (case snd (gpu_call gpu env dx dy) of
                 Gpu_returns c \<Rightarrow> Undefined (Null_buffer H_C)
               | Gpu_aborts \<Rightarrow> Aborted
               | Gpu_undefined f \<Rightarrow> Undefined f) \<and>
            (\<forall>k. Verification_report k \<notin> set (fst (main gpu env argv)))) \<and>
         (alloc_ok env H_A \<and> alloc_ok env H_B \<and> alloc_ok env H_check \<and> \<not> device_ok dev \<longrightarrow>
            main (gpu_matrix_add_call dev) env argv =
              (map (\<lambda>b. Malloc b (malloc_bytes (int_mul dx dy)) (alloc_ok env b))
                 [H_A, H_B, H_C, H_check] @
               [Init_call H_A, Init_call H_B, Timing_line Init_phase] @
               inputs env dx dy @ [Cpu_add_call, Timing_line Cpu_phase] @
               inputs env dx dy @ [Gpu_add_call, Device_output Diagnostic], Aborted))"
proof -
  have run: "main r env argv = compute_phases r env dx dy" for r
    using assms(1) by (simp add: main_def)
  show ?thesis
    unfolding run
    using compute_phases_requests [of gpu env dx dy]
      compute_phases_null_host [OF assms(2,3), of env _ gpu]
      compute_phases_null_C [OF assms(2,3), of env gpu]
      compute_phases_device_abort [OF assms(2,3), of env dev]
    unfolding requests_def by blast
qed

theorem allocation_failure_handling_witness:
  "resolve_dims [''./executable'', ''2'', ''2''] = Dims 2 2 \<and> (0::int) < 2 \<and>
   find (\<lambda>b. \<not> alloc_ok (starved_env H_B) b) [H_A, H_B, H_check] = Some H_B \<and>
   snd (main untouched_gpu (starved_env H_B) [''./executable'', ''2'', ''2'']) =
     Undefined (Null_buffer H_B) \<and>
   filter is_malloc (fst (main untouched_gpu (starved_env H_B) [''./executable'', ''2'', ''2''])) =
     [Malloc H_A 16 True, Malloc H_B 16 False, Malloc H_C 16 True, Malloc H_check 16 True] \<and>
   alloc_ok (starved_env H_C) H_A \<and> alloc_ok (starved_env H_C) H_B \<and>
   alloc_ok (starved_env H_C) H_check \<and> \<not> alloc_ok (starved_env H_C) H_C \<and>
   main untouched_gpu (starved_env H_C) [''./executable'', ''2'', ''2''] =
     ([Malloc H_A 16 True, Malloc H_B 16 True, Malloc H_C 16 False, Malloc H_check 16 True,
       Init_call H_A, Init_call H_B, Timing_line Init_phase,
       Input H_A [3, 3, 3, 3], Input H_B [2, 2, 2, 2], Cpu_add_call, Timing_line Cpu_phase,
       Input H_A [3, 3, 3, 3], Input H_B [2, 2, 2, 2], Gpu_add_call, Timing_line Gpu_phase,
       Dump_heading Cpu_phase, Matrix_dump H_check [5, 5, 5, 5], Dump_heading Gpu_phase],
      Undefined (Null_buffer H_C)) \<and>
   alloc_ok plain_env H_A \<and> alloc_ok plain_env H_B \<and> alloc_ok plain_env H_check \<and>
   \<not> device_ok broken_device \<and>
   main (gpu_matrix_add_call broken_device) plain_env [''./executable'', ''2'', ''2''] =
     ([Malloc H_A 16 True, Malloc H_B 16 True, Malloc H_C 16 True, Malloc H_check 16 True,
       Init_call H_A, Init_call H_B, Timing_line Init_phase,
       Input H_A [3, 3, 3, 3], Input H_B [2, 2, 2, 2], Cpu_add_call, Timing_line Cpu_phase,
       Input H_A [3, 3, 3, 3], Input H_B [2, 2, 2, 2], Gpu_add_call, Device_output Diagnostic],
      Aborted)"
proof -
  have d: "resolve_dims [''./executable'', ''2'', ''2''] = Dims 2 2"
    by (rule resolve_dims_2_2)
  have p: "(0::int) < 2" by simp
  have s: "find (\<lambda>b. \<not> alloc_ok (starved_env H_B) b) [H_A, H_B, H_check] = Some H_B"
    by (simp add: starved_env_def)
  have ok: "alloc_ok (starved_env c) c' = (c' \<noteq> c)" "alloc_ok plain_env c'" for c c'
    by (simp_all add: starved_env_def plain_env_def)
  have b: "\<not> device_ok broken_device"
    by (simp add: broken_device_def)
  have sz: "malloc_bytes (int_mul 2 2) = 16"
    by (simp add: malloc_bytes_def int_mul_def)
  have four: "replicate 4 c = [c, c, c, c]" for c :: cell
    by (simp add: numeral_eq_Suc)
  have ins: "inputs env 2 2 = [Input H_A [3, 3, 3, 3], Input H_B [2, 2, 2, 2]]" for env
    using snapshot_h_A [of env 2 2] snapshot_h_B [of env 2 2]
    by (simp add: inputs_def four MAT_A_VAL_def MAT_B_VAL_def)
  from allocation_failure_handling [OF d p p, of untouched_gpu "starved_env H_B" broken_device]
    allocation_failure_handling [OF d p p, of untouched_gpu plain_env broken_device]
  show ?thesis
    using d s b by (simp add: sz ok ins run_untouched_null_C)
qed

subsection \<open>Verification and the end of the run\<close>

text \<open>
  Claim C6. A verification mismatch is not fatal. Whatever number of mismatching cells
  the verification reports, zero or not, a run that reaches the report has printed the
  three timing lines before it, goes on to free the four matrices \<^verbatim>\<open>h_A\<close>, \<^verbatim>\<open>h_B\<close>, \<^verbatim>\<open>h_C\<close> and
  \<^verbatim>\<open>h_check\<close>, and returns 0.
\<close>

theorem verification_mismatch_not_fatal:
  assumes "Verification_report k \<in> set (fst (main gpu env argv))"
  shows "snd (main gpu env argv) = Returned 0 \<and>
         (\<exists>pre. fst (main gpu env argv) =
            pre @ [Verification_report k, Free H_A, Free H_B, Free H_C, Free H_check] \<and>
            Timing_line Init_phase \<in> set pre \<and> Timing_line Cpu_phase \<in> set pre \<and>
            Timing_line Gpu_phase \<in> set pre)"
  using assms compute_phases_report [of k gpu env]
  by (auto simp: main_def split: resolved.splits)

theorem verification_mismatch_not_fatal_witness:
  "Verification_report 4 \<in> set (fst (main untouched_gpu plain_env [''./executable'', ''2'', ''2''])) \<and>
   snd (main untouched_gpu plain_env [''./executable'', ''2'', ''2'']) = Returned 0 \<and>
   (\<exists>pre. fst (main untouched_gpu plain_env [''./executable'', ''2'', ''2'']) =
      pre @ [Verification_report 4, Free H_A, Free H_B, Free H_C, Free H_check])"
proof -
  have h: "Verification_report 4 \<in>
      set (fst (main untouched_gpu plain_env [''./executable'', ''2'', ''2'']))"
    by (simp add: run_untouched_2_2)
  from verification_mismatch_not_fatal [OF h] h show ?thesis by blast
qed

subsection \<open>Before the compute phases\<close>

text \<open>
  Claim C7, as stated, fails: the dimensions are taken from \<^verbatim>\<open>atoi\<close> without any test, the
  results of \<^verbatim>\<open>malloc\<close> are not tested either, and the product \<^verbatim>\<open>dx*dy\<close> is an \<^verbatim>\<open>int\<close>. The
  arguments \<^verbatim>\<open>0 5\<close> give a run that goes through both compute phases with \<open>dx = 0\<close>; when
  the allocation of \<^verbatim>\<open>h_check\<close> fails on a 2 by 2 run, the host addition is still entered;
  and with the arguments \<^verbatim>\<open>65536 65536\<close> the four requests are for 0 bytes, and the host
  addition is entered.
\<close>

theorem compute_phases_entered_with_zero_dimension:
  "resolve_dims [''./executable'', ''0'', ''5''] = Dims 0 5 \<and>
   main (gpu_matrix_add_call small_device) plain_env [''./executable'', ''0'', ''5''] =
     ([Malloc H_A 0 True, Malloc H_B 0 True, Malloc H_C 0 True, Malloc H_check 0 True,
       Init_call H_A, Init_call H_B, Timing_line Init_phase,
       Input H_A [], Input H_B [], Cpu_add_call, Timing_line Cpu_phase,
       Input H_A [], Input H_B [], Gpu_add_call, Timing_line Gpu_phase,
       Dump_heading Cpu_phase, Matrix_dump H_check [],
       Dump_heading Gpu_phase, Matrix_dump H_C [],
       Input H_check [], Input H_C [],
       Verification_report 0, Free H_A, Free H_B, Free H_C, Free H_check], Returned 0) \<and>
   main (gpu_matrix_add_call small_device) (starved_env H_check) [''./executable'', ''2'', ''2''] =
     ([Malloc H_A 16 True, Malloc H_B 16 True, Malloc H_C 16 True, Malloc H_check 16 False,
       Init_call H_A, Init_call H_B, Timing_line Init_phase,
       Input H_A [3, 3, 3, 3], Input H_B [2, 2, 2, 2], Cpu_add_call],
      Undefined (Null_buffer H_check)) \<and>
   resolve_dims [''./executable'', ''65536'', ''65536''] = Dims 65536 65536 \<and>
   take 4 (fst (main (gpu_matrix_add_call small_device) plain_env
                  [''./executable'', ''65536'', ''65536''])) =
     [Malloc H_A 0 True, Malloc H_B 0 True, Malloc H_C 0 True, Malloc H_check 0 True] \<and>
   Cpu_add_call \<in> set (fst (main (gpu_matrix_add_call small_device) plain_env
                               [''./executable'', ''65536'', ''65536'']))"
proof -
  let ?gpu = "gpu_matrix_add_call small_device"
  have zero: "main ?gpu plain_env [''./executable'', ''0'', ''5''] =
     ([Malloc H_A 0 True, Malloc H_B 0 True, Malloc H_C 0 True, Malloc H_check 0 True,
       Init_call H_A, Init_call H_B, Timing_line Init_phase,
       Input H_A [], Input H_B [], Cpu_add_call, Timing_line Cpu_phase,
       Input H_A [], Input H_B [], Gpu_add_call, Timing_line Gpu_phase,
       Dump_heading Cpu_phase, Matrix_dump H_check [],
       Dump_heading Gpu_phase, Matrix_dump H_C [],
       Input H_check [], Input H_C [],
       Verification_report 0, Free H_A, Free H_B, Free H_C, Free H_check], Returned 0)"
  proof -
    from device_call_returns [OF small_device_ok plain_env_no_null, of 0 5] obtain h_C
      where g: "gpu_call ?gpu plain_env 0 5 = ([], Gpu_returns h_C)"
      by blast
    have ok: "alloc_ok plain_env b" for b
      by (simp add: plain_env_def)
    show ?thesis
      unfolding main_def resolve_dims_0_5 resolved.case compute_phases_def Let_def g
      by (simp add: plain_env_no_null ok inputs_def requests_def malloc_bytes_def
            int_mul_def snapshot_def PrintMatrix_def MatrixVerification_def)
  qed
  have starved:
    "main ?gpu (starved_env H_check) [''./executable'', ''2'', ''2''] =
     ([Malloc H_A 16 True, Malloc H_B 16 True, Malloc H_C 16 True, Malloc H_check 16 False,
       Init_call H_A, Init_call H_B, Timing_line Init_phase,
       Input H_A [3, 3, 3, 3], Input H_B [2, 2, 2, 2], Cpu_add_call],
      Undefined (Null_buffer H_check))"
    by (simp add: run_defs cell_defs starved_env_def upt_4)
  have big: "main ?gpu plain_env [''./executable'', ''65536'', ''65536''] =
      compute_phases ?gpu plain_env 65536 65536"
    by (simp add: main_def resolve_dims_65536)
  from compute_phases_mallocs [of ?gpu plain_env 65536 65536]
  obtain rest where "fst (compute_phases ?gpu plain_env 65536 65536) =
      requests plain_env 65536 65536 @ rest"
    by blast
  moreover have "requests plain_env 65536 65536 =
      [Malloc H_A 0 True, Malloc H_B 0 True, Malloc H_C 0 True, Malloc H_check 0 True]"
    by (simp add: requests_def malloc_bytes_def int_mul_def plain_env_def)
  ultimately have wrapped: "take 4 (fst (main ?gpu plain_env [''./executable'', ''65536'', ''65536''])) =
      [Malloc H_A 0 True, Malloc H_B 0 True, Malloc H_C 0 True, Malloc H_check 0 True]"
    by (simp add: big)
  have entered: "Cpu_add_call \<in> set (fst (main ?gpu plain_env [''./executable'', ''65536'', ''65536'']))"
    by (simp add: big compute_phases_cpu_reached plain_env_no_null)
  from resolve_dims_0_5 zero starved resolve_dims_65536 wrapped entered
  show ?thesis by (intro conjI)
qed

text \<open>
  Claim C7, amended. On every run that reaches the compute phases: the four matrices
  have been requested before anything else, hence before any compute phase, all with the
  same byte count, which is that of \<open>dx * dy\<close> cells of four bytes when the dimensions are
  not negative and their product fits an \<^verbatim>\<open>int\<close>; for \<open>dx, dy > 0\<close> the inputs \<^verbatim>\<open>h_A\<close> and
  \<^verbatim>\<open>h_B\<close> were allocated; and no matrix is read before being fully initialized: the host
  addition is handed \<^verbatim>\<open>h_A\<close> and \<^verbatim>\<open>h_B\<close> filled with their values in every cell, and, with
  the accelerator routine of the spec, every matrix that a routine is handed to read or
  that is printed holds in every cell the value its producer wrote, so that the run does
  not depend on what the allocated blocks held. That the dimensions are positive is not
  enforced: it holds when no argument is given (the default, 1024 by 1024). Whether the
  allocations succeeded is not tested.
\<close>

theorem compute_phases_preconditions:
  assumes "resolve_dims argv = Dims dx dy"
    and "Cpu_add_call \<in> set (fst (main gpu env argv))"
  shows "(\<exists>rest. fst (main gpu env argv) =
            map (\<lambda>b. Malloc b (malloc_bytes (int_mul dx dy)) (alloc_ok env b))
              [H_A, H_B, H_C, H_check] @ rest \<and>
            \<not> list_ex is_malloc rest) \<and>
         (0 \<le> dx \<and> 0 \<le> dy \<and> dx * dy \<le> INT_MAX \<longrightarrow>
            malloc_bytes (int_mul dx dy) = 4 * (nat dx * nat dy)) \<and>
         (0 < dx \<and> 0 < dy \<longrightarrow> alloc_ok env H_A \<and> alloc_ok env H_B) \<and>
         Input H_A (replicate (nat dx * nat dy) MAT_A_VAL) \<in> set (fst (main gpu env argv)) \<and>
         Input H_B (replicate (nat dx * nat dy) MAT_B_VAL) \<in> set (fst (main gpu env argv)) \<and>
         (\<forall>M cs. Input M cs \<in> set (fst (main (gpu_matrix_add_call dev) env argv)) \<or>
                  Matrix_dump M cs \<in> set (fst (main (gpu_matrix_add_call dev) env argv)) \<longrightarrow>
            cs = replicate (nat dx * nat dy)
                   (case M of H_A \<Rightarrow> MAT_A_VAL | H_B \<Rightarrow> MAT_B_VAL
                    | H_C \<Rightarrow> MAT_A_VAL + MAT_B_VAL | H_check \<Rightarrow> MAT_A_VAL + MAT_B_VAL)) \<and>
         main (gpu_matrix_add_call dev) (env\<lparr>garbage := g\<rparr>) argv =
           main (gpu_matrix_add_call dev) env argv \<and>
         (length argv < 2 \<longrightarrow> dx = 1024 \<and> dy = 1024)"
proof -
  have run: "main r e argv = compute_phases r e dx dy" for r e
    using assms(1) by (simp add: main_def)
  from assms(2) have reached: "Cpu_add_call \<in> set (fst (compute_phases gpu env dx dy))"
    by (simp add: run)
  have allocated: "0 < dx \<and> 0 < dy \<longrightarrow> alloc_ok env H_A \<and> alloc_ok env H_B"
    using reached by (auto simp: compute_phases_cpu_reached null_matrix_def)
  have default: "length argv < 2 \<longrightarrow> dx = 1024 \<and> dy = 1024"
    using assms(1) by (auto simp: resolve_dims_def DEFAULT_DIM_def)
  have initialized: "cs = replicate (nat dx * nat dy)
      (case M of H_A \<Rightarrow> MAT_A_VAL | H_B \<Rightarrow> MAT_B_VAL
       | H_C \<Rightarrow> MAT_A_VAL + MAT_B_VAL | H_check \<Rightarrow> MAT_A_VAL + MAT_B_VAL)"
    if "Input M cs \<in> set (fst (compute_phases (gpu_matrix_add_call dev) env dx dy)) \<or>
        Matrix_dump M cs \<in> set (fst (compute_phases (gpu_matrix_add_call dev) env dx dy))"
    for M cs
    using that by (rule compute_phases_device_inputs)
  show ?thesis
    unfolding run
    using compute_phases_mallocs [of gpu env dx dy, unfolded requests_def]
      malloc_bytes_cells [of dx dy] allocated default
      compute_phases_cpu_inputs [OF reached] initialized
      compute_phases_garbage [where dev = dev and env = env and g = g and dx = dx and dy = dy]
    by blast
qed

theorem compute_phases_preconditions_witness:
  "resolve_dims [''./executable'', ''2'', ''2''] = Dims 2 2 \<and>
   Cpu_add_call \<in> set (fst (main (gpu_matrix_add_call small_device) plain_env
                               [''./executable'', ''2'', ''2''])) \<and>
   main (gpu_matrix_add_call small_device) plain_env [''./executable'', ''2'', ''2''] =
     ([Malloc H_A 16 True, Malloc H_B 16 True, Malloc H_C 16 True, Malloc H_check 16 True,
       Init_call H_A, Init_call H_B, Timing_line Init_phase,
       Input H_A [3, 3, 3, 3], Input H_B [2, 2, 2, 2], Cpu_add_call, Timing_line Cpu_phase,
       Input H_A [3, 3, 3, 3], Input H_B [2, 2, 2, 2], Gpu_add_call, Timing_line Gpu_phase,
       Dump_heading Cpu_phase, Matrix_dump H_check [5, 5, 5, 5],
       Dump_heading Gpu_phase, Matrix_dump H_C [5, 5, 5, 5],
       Input H_check [5, 5, 5, 5], Input H_C [5, 5, 5, 5],
       Verification_report 0, Free H_A, Free H_B, Free H_C, Free H_check], Returned 0) \<and>
   malloc_bytes (int_mul 2 2) = 4 * (nat 2 * nat 2) \<and>
   alloc_ok plain_env H_A \<and> alloc_ok plain_env H_B"
proof -
  have d: "resolve_dims [''./executable'', ''2'', ''2''] = Dims 2 2"
    by (rule resolve_dims_2_2)
  have c: "Cpu_add_call \<in> set (fst (main (gpu_matrix_add_call small_device) plain_env
      [''./executable'', ''2'', ''2'']))"
    by (simp add: run_device_2_2)
  from compute_phases_preconditions [OF d c, of small_device "\<lambda>b i. 0"] d c
  show ?thesis by (simp add: run_device_2_2 INT_MAX_def)
qed

subsection \<open>Small matrices are printed\<close>

text \<open>
  Claim C9. Nothing of the debugging printout appears unless \<open>dx \<le> 6\<close> and \<open>dy \<le> 6\<close>.
  When \<open>dx \<le> 6\<close> and \<open>dy \<le> 6\<close>, a run that gets past the accelerator phase prints the
  host reference \<^verbatim>\<open>h_check\<close> as \<^verbatim>\<open>cpu_matrix_add\<close> left it, and a run that returns from
  \<^verbatim>\<open>main\<close> has printed exactly the two headings with the two result matrices, \<^verbatim>\<open>h_check\<close>
  and the accelerator result \<^verbatim>\<open>h_C\<close> as the accelerator routine returned it, each with
  the dimensions of the run; for larger dimensions it has printed no matrix.
\<close>

theorem matrices_dumped_iff_small:
  assumes "resolve_dims argv = Dims dx dy"
  shows "(list_ex is_printout (fst (main gpu env argv)) \<longrightarrow> dx \<le> 6 \<and> dy \<le> 6) \<and>
         (Timing_line Gpu_phase \<in> set (fst (main gpu env argv)) \<and> dx \<le> 6 \<and> dy \<le> 6 \<longrightarrow>
            Matrix_dump H_check
              (PrintMatrix
                 (cpu_matrix_add
                    (InitializeMatrixSame (garbage env H_A) (nat dx) (nat dy) MAT_A_VAL ''h_A'')
                    (InitializeMatrixSame (garbage env H_B) (nat dx) (nat dy) MAT_B_VAL ''h_B'')
                    (garbage env H_check) (nat dx) (nat dy))
                 (nat dx) (nat dy))
              \<in> set (fst (main gpu env argv))) \<and>
         (snd (main gpu env argv) = Returned 0 \<longrightarrow>
            (\<exists>out h_C.
               gpu (InitializeMatrixSame (garbage env H_A) (nat dx) (nat dy) MAT_A_VAL ''h_A'')
                 (InitializeMatrixSame (garbage env H_B) (nat dx) (nat dy) MAT_B_VAL ''h_B'')
                 (if alloc_ok env H_C then Some (garbage env H_C) else None) (nat dx) (nat dy) =
                   (out, Gpu_returns h_C) \<and>
               filter is_printout (fst (main gpu env argv)) =
                 (if dx \<le> 6 \<and> dy \<le> 6
                  then [Dump_heading Cpu_phase,
                        Matrix_dump H_check
                          (PrintMatrix
                             (cpu_matrix_add
                                (InitializeMatrixSame (garbage env H_A) (nat dx) (nat dy)
                                   MAT_A_VAL ''h_A'')
                                (InitializeMatrixSame (garbage env H_B) (nat dx) (nat dy)
                                   MAT_B_VAL ''h_B'')
                                (garbage env H_check) (nat dx) (nat dy))
                             (nat dx) (nat dy)),
                        Dump_heading Gpu_phase,
                        Matrix_dump H_C (PrintMatrix h_C (nat dx) (nat dy))]
                  else [])))"
proof -
  have run: "main gpu env argv = compute_phases gpu env dx dy"
    using assms by (simp add: main_def)
  show ?thesis
    unfolding run
    using compute_phases_printout_small [of gpu env dx dy]
      compute_phases_printout_reference [of gpu env dx dy]
      compute_phases_printout [of gpu env dx dy]
    unfolding gpu_call_def h_check_summed_def h_A_filled_def h_B_filled_def h_C_pointer_def
    by blast
qed

theorem matrices_dumped_iff_small_witness:
  "resolve_dims [''./executable'', ''2'', ''2''] = Dims 2 2 \<and>
   snd (main (gpu_matrix_add_call small_device) plain_env [''./executable'', ''2'', ''2'']) =
     Returned 0 \<and>
   filter is_printout
     (fst (main (gpu_matrix_add_call small_device) plain_env [''./executable'', ''2'', ''2''])) =
     [Dump_heading Cpu_phase, Matrix_dump H_check [5, 5, 5, 5],
      Dump_heading Gpu_phase, Matrix_dump H_C [5, 5, 5, 5]] \<and>
   resolve_dims [''./executable'', ''7'', ''2''] = Dims 7 2 \<and>
   snd (main (gpu_matrix_add_call small_device) plain_env [''./executable'', ''7'', ''2'']) =
     Returned 0 \<and>
   filter is_printout
     (fst (main (gpu_matrix_add_call small_device) plain_env [''./executable'', ''7'', ''2''])) = []"
proof -
  from matrices_dumped_iff_small [OF resolve_dims_7_2, of "gpu_matrix_add_call small_device" plain_env]
    run_device_7_2_returns
  have "filter is_printout
     (fst (main (gpu_matrix_add_call small_device) plain_env [''./executable'', ''7'', ''2''])) = []"
    by auto
  then show ?thesis
    using resolve_dims_2_2 resolve_dims_7_2 run_device_7_2_returns
    by (simp add: run_device_2_2)
qed

subsection \<open>Host addition\<close>

text \<open>
  Claim C8. For all dimensions \<open>dx, dy > 0\<close> and all fill values \<open>a\<close>, \<open>b\<close>: once \<open>A\<close>
  has been filled with \<open>a\<close> and \<open>B\<close> with \<open>b\<close>, every cell of the host sum is \<open>a + b\<close>,
  whatever the three blocks held before.
\<close>

theorem cpu_matrix_add_constant_fill:
  assumes "0 < dx" and "0 < dy" and "i < dx * dy"
  shows "cpu_matrix_add (InitializeMatrixSame gA dx dy a nA)
           (InitializeMatrixSame gB dx dy b nB) out dx dy i = a + b"
  using assms by (simp add: cpu_matrix_add_cell InitializeMatrixSame_cell)

theorem cpu_matrix_add_constant_fill_witness:
  "(0::nat) < 4 \<and> (0::nat) < 4 \<and> (15::nat) < 4 * 4 \<and>
   cpu_matrix_add (InitializeMatrixSame (\<lambda>i. 0) 4 4 MAT_A_VAL ''h_A'')
     (InitializeMatrixSame (\<lambda>i. 0) 4 4 MAT_B_VAL ''h_B'') (\<lambda>i. 0) 4 4 15 = 5"
  using cpu_matrix_add_constant_fill
    [of 4 4 15 "\<lambda>i. 0" MAT_A_VAL "''h_A''" "\<lambda>i. 0" MAT_B_VAL "''h_B''" "\<lambda>i. 0"]
  by (simp add: MAT_A_VAL_def MAT_B_VAL_def)

text \<open>
  Claim C10. Host addition is commutative in its two inputs: swapping \<open>A\<close> and \<open>B\<close>
  gives the same output block, cell for cell.
\<close>

theorem cpu_matrix_add_commute:
  "cpu_matrix_add A B out dx dy = cpu_matrix_add B A out dx dy"
  by (rule ext) (simp add: cpu_matrix_add_cell add.commute)

end
